theory Spec2Isabelle
  imports Complex_Main
begin

section \<open>EAA Growers decision support: the model of app.py\<close>

text \<open>
  The application is one Streamlit script, \<^verbatim>\<open>app.py\<close>. Every user
  interaction runs the script from top to bottom against the session state, a
  dictionary with the twelve keys of \<^verbatim>\<open>defaults\<close>.

  Conventions of the embedding:
  \<^item> Python floats are modelled as \<^typ>\<open>real\<close> (exact arithmetic, no rounding
    error, no NaN or infinity); Python ints as \<^typ>\<open>int\<close>.
  \<^item> \<^verbatim>\<open>None\<close> in a session field is \<open>None\<close> of an option type.
  \<^item> Text outside ASCII is written as its UTF-8 bytes.
  \<^item> The libraries the script calls (shapely, geopandas, numpy's generator) are
    not part of the repository: their functions are parameters of the model.
\<close>

subsection \<open>Python helpers\<close>

text \<open>The exceptions the script can raise; a computation that may raise returns a sum.\<close>

datatype py_error =
  TypeError | KeyError | IndexError | AttributeError | ZeroDivisionError
  | StreamlitAPIException

text \<open>\<^verbatim>\<open>a / b\<close> on numbers raises when \<^verbatim>\<open>b\<close> is zero.\<close>

definition py_truediv :: "real \<Rightarrow> real \<Rightarrow> py_error + real" where
  "py_truediv a b = (if b = 0 then Inl ZeroDivisionError else Inr (a / b))"

text \<open>\<^verbatim>\<open>int(x)\<close> on a float truncates toward zero.\<close>

definition py_int :: "real \<Rightarrow> int" where
  "py_int x = (if 0 \<le> x then \<lfloor>x\<rfloor> else \<lceil>x\<rceil>)"

text \<open>\<^verbatim>\<open>round(x, 1)\<close>: one decimal place, ties to the even neighbour.\<close>

definition py_round1 :: "real \<Rightarrow> real" where
  "py_round1 x =
     (let y = x * 10; f = \<lfloor>y\<rfloor>; d = y - of_int f
      in of_int (if d < 1 / 2 then f
                 else if 1 / 2 < d then f + 1
                 else if even f then f else f + 1) / 10)"

subsection \<open>Crop data and the carbon model (lines 105--115)\<close>

text \<open>Rows of \<^verbatim>\<open>crop_data\<close>: crop, carbon credits, CO2 released (tons/ha/yr).\<close>

definition crop_data :: "(string \<times> real \<times> real) list" where
  "crop_data =
     [(''Sugarcane'', 675 / 100, 342 / 100),
      (''Flooded Rice'', 912 / 100, 40 / 100),
      (''Sweet Corn'', 489 / 100, 265 / 100),
      (''Lettuce'', 321 / 100, 192 / 100),
      (''Turf Grass'', 743 / 100, 287 / 100),
      (''Legume Mix'', 538 / 100, 175 / 100),
      (''Sunn Hemp'', 827 / 100, 148 / 100),
      (''Cowpea'', 612 / 100, 195 / 100)]"

definition calculate_carbon_impact :: "real \<Rightarrow> real \<Rightarrow> real \<Rightarrow> real \<Rightarrow> real" where
  "calculate_carbon_impact base_credits farm_size depth_cm som_pct =
     (let depth_factor = min (depth_cm / 30) 1;
          som_factor = min (som_pct / 60) 1
      in base_credits * farm_size * depth_factor * som_factor)"

text \<open>
  Line 335: \<^verbatim>\<open>cars = (adj_credits / size / 4.6) if size > 0 else 0\<close>, where
  \<^verbatim>\<open>size\<close> is the integer \<^verbatim>\<open>saved_farm_size\<close>.
\<close>

definition cars :: "real \<Rightarrow> int \<Rightarrow> py_error + real" where
  "cars adj_credits size_ha =
     (if 0 < size_ha then
        (case py_truediv adj_credits (of_int size_ha) of Inl e \<Rightarrow> Inl e
         | Inr q \<Rightarrow> py_truediv q (46 / 10))
      else Inr 0)"

subsection \<open>Session state (lines 47--69)\<close>

text \<open>
  The keys of \<^verbatim>\<open>defaults\<close>. \<^verbatim>\<open>display_som\<close> starts as \<open>0.0\<close> and
  is later assigned \<^verbatim>\<open>est_som\<close>, which may be \<^verbatim>\<open>None\<close>, so it is optional too.
\<close>

record session =
  step :: int
  clicked_lat :: "real option"
  clicked_lon :: "real option"
  est_som :: "real option"
  est_depth :: "int option"
  display_ph :: real
  display_som :: "real option"
  saved_farm_size :: int
  selected_crop :: string
  drawn_area_ha :: "real option"
  selection_mode :: string
  map_key :: int

definition defaults :: session where
  "defaults =
     \<lparr>step = 1, clicked_lat = None, clicked_lon = None, est_som = None,
      est_depth = None, display_ph = 65 / 10, display_som = Some 0,
      saved_farm_size = 100, selected_crop = ''Sugarcane'', drawn_area_ha = None,
      selection_mode = ''point'', map_key = 0\<rparr>"

text \<open>
  \<^verbatim>\<open>reset_survey\<close>: the loop over \<^verbatim>\<open>defaults.items()\<close> assigns every key but
  \<^verbatim>\<open>map_key\<close>, in the order of the dictionary; then \<^verbatim>\<open>map_key += 1\<close>.
\<close>

definition reset_survey :: "session \<Rightarrow> session" where
  "reset_survey s =
     (let s = s\<lparr>step := step defaults\<rparr>;
          s = s\<lparr>clicked_lat := clicked_lat defaults\<rparr>;
          s = s\<lparr>clicked_lon := clicked_lon defaults\<rparr>;
          s = s\<lparr>est_som := est_som defaults\<rparr>;
          s = s\<lparr>est_depth := est_depth defaults\<rparr>;
          s = s\<lparr>display_ph := display_ph defaults\<rparr>;
          s = s\<lparr>display_som := display_som defaults\<rparr>;
          s = s\<lparr>saved_farm_size := saved_farm_size defaults\<rparr>;
          s = s\<lparr>selected_crop := selected_crop defaults\<rparr>;
          s = s\<lparr>drawn_area_ha := drawn_area_ha defaults\<rparr>;
          s = s\<lparr>selection_mode := selection_mode defaults\<rparr>
      in s\<lparr>map_key := map_key s + 1\<rparr>)"

subsection \<open>The soil estimator (lines 154--168)\<close>

text \<open>
  numpy's generator is a parameter: \<open>default_rng\<close> builds a generator state from a
  seed, and every draw returns its value together with the next state.
\<close>

record 'g rng_lib =
  default_rng :: "int \<Rightarrow> 'g"
  uniform :: "'g \<Rightarrow> real \<Rightarrow> real \<Rightarrow> real \<times> 'g"
  choice :: "'g \<Rightarrow> string list \<Rightarrow> real list \<Rightarrow> string \<times> 'g"
  integers :: "'g \<Rightarrow> int \<Rightarrow> int \<Rightarrow> int \<times> 'g"

text \<open>\<^verbatim>\<open>int((lat + lon) * 10000) % (2**31)\<close>; Python's \<^verbatim>\<open>%\<close> is \<open>mod\<close> on \<^typ>\<open>int\<close>.\<close>

definition seed_of :: "real \<Rightarrow> real \<Rightarrow> int" where
  "seed_of lat lon = py_int ((lat + lon) * 10000) mod 2 ^ 31"

definition predict_soil_metrics :: "'g rng_lib \<Rightarrow> real \<Rightarrow> real \<Rightarrow> real \<times> int" where
  "predict_soil_metrics R lat lon =
     (let g0 = default_rng R (seed_of lat lon);
          (u, g1) = uniform R g0 25 85;
          som = py_round1 u;
          (depth_choice, g2) =
            choice R g1 [''shallow'', ''adequate'', ''deep''] [4 / 10, 5 / 10, 1 / 10];
          (depth, g3) =
            (if depth_choice = ''shallow'' then integers R g2 15 30
             else if depth_choice = ''adequate'' then integers R g2 30 101
             else integers R g2 101 151)
      in (som, depth))"

subsection \<open>The map handler (lines 199--233)\<close>

text \<open>
  The value of the map widget: \<^verbatim>\<open>map_data\<close> may be \<^verbatim>\<open>None\<close>, and so may
  each of its entries. The drawings come as JSON. Where the script expects a
  dictionary, the value is either a dictionary or something else (\<^verbatim>\<open>null\<close>, a
  list, a string, a number), on which \<^verbatim>\<open>.get\<close> raises \<^verbatim>\<open>AttributeError\<close>.
\<close>

datatype 'a json = NotADict | Dict 'a

text \<open>
  A drawing is a GeoJSON feature. Its entry \<^verbatim>\<open>geometry\<close> may be missing; of a
  geometry the script reads the \<^verbatim>\<open>type\<close>, which may be missing too, and hands the
  rest to shapely.
\<close>

record 'c geometry =
  gtype :: "string option"
  coordinates :: 'c

record 'c drawing =
  geometry :: "'c geometry json option"

text \<open>The entry \<^verbatim>\<open>last_clicked\<close> with its keys \<^verbatim>\<open>lat\<close> and \<^verbatim>\<open>lng\<close>.\<close>

record click =
  click_lat :: real
  click_lng :: real

record 'c map_data =
  all_drawings :: "'c drawing json list option"
  last_clicked :: "click option"

text \<open>
  The geometry libraries and the region, as parameters:
  \<^item> \<open>shape\<close> is shapely's \<^verbatim>\<open>shape\<close>; \<open>None\<close> stands for any exception it raises;
  \<^item> \<open>centroid\<close> gives \<^verbatim>\<open>(centroid.x, centroid.y)\<close>;
  \<^item> \<open>area_m2\<close> is the area after \<^verbatim>\<open>to_crs("EPSG:32617")\<close>, \<open>None\<close> if that raises;
  \<^item> \<open>eaa_contains lon lat\<close> is \<^verbatim>\<open>eaa_poly.contains(Point(lon, lat))\<close>;
  \<^item> \<open>rerun_caught\<close> says whether the exception by which \<^verbatim>\<open>st.rerun()\<close> stops
    the script is intercepted by the bare \<^verbatim>\<open>except:\<close> of line 220 (it is when
    Streamlit derives it from \<^verbatim>\<open>BaseException\<close> alone). The properties proved
    below hold for either value.
\<close>

record ('c, 'p, 'g) env =
  shape :: "'c geometry \<Rightarrow> 'p option"
  centroid :: "'p \<Rightarrow> real \<times> real"
  area_m2 :: "'p \<Rightarrow> real option"
  eaa_contains :: "real \<Rightarrow> real \<Rightarrow> bool"
  rerun_caught :: bool
  rng :: "'g rng_lib"

datatype ctl = Continue | Rerun

datatype toast = CentroidOutside | OutOfBounds

text \<open>
  Line 202, \<^verbatim>\<open>last_drawing.get("geometry", {}).get("type")\<close>. It stands before the
  \<^verbatim>\<open>try\<close> of line 203, so its exception leaves the handler. A missing geometry
  is replaced by the empty dictionary, which has no type.
\<close>

definition geometry_type :: "'c drawing json \<Rightarrow> py_error + string option" where
  "geometry_type last_drawing =
     (case last_drawing of NotADict \<Rightarrow> Inl AttributeError
      | Dict d \<Rightarrow>
     (case geometry d of None \<Rightarrow> Inr None
      | Some NotADict \<Rightarrow> Inl AttributeError
      | Some (Dict g) \<Rightarrow> Inr (gtype g)))"

text \<open>
  Lines 199--220. The result is an exception, or \<^verbatim>\<open>drawing_processed\<close>, whether
  the script was stopped for a rerun, the toasts shown and the session. Every exception
  between \<^verbatim>\<open>try\<close> and \<^verbatim>\<open>except: pass\<close> leaves \<^verbatim>\<open>drawing_processed\<close>
  false.
\<close>

definition drawing_handler ::
  "('c, 'p, 'g) env \<Rightarrow> 'c map_data option \<Rightarrow> session
     \<Rightarrow> py_error + bool \<times> ctl \<times> toast list \<times> session" where
  "drawing_handler E md s =
     (case md of None \<Rightarrow> Inr (False, Continue, [], s)
      | Some m \<Rightarrow>
     (case all_drawings m of None \<Rightarrow> Inr (False, Continue, [], s)
      | Some ds \<Rightarrow>
     if ds = [] then Inr (False, Continue, [], s)
     else
       let last_drawing = last ds
       in case geometry_type last_drawing of Inl e \<Rightarrow> Inl e
          | Inr ty \<Rightarrow>
          if ty = Some ''Polygon'' \<or> ty = Some ''MultiPolygon'' then
            Inr
            (case last_drawing of NotADict \<Rightarrow> (False, Continue, [], s)
             | Dict d \<Rightarrow>
            (case geometry d of None \<Rightarrow> (False, Continue, [], s)
             | Some NotADict \<Rightarrow> (False, Continue, [], s)
             | Some (Dict g) \<Rightarrow>
            (case shape E g of None \<Rightarrow> (False, Continue, [], s)
             | Some drawn_shape \<Rightarrow>
            let (lon, lat) = centroid E drawn_shape
            in if clicked_lat s \<noteq> Some lat then
                 if eaa_contains E lon lat then
                   (case area_m2 E drawn_shape of None \<Rightarrow> (False, Continue, [], s)
                    | Some a \<Rightarrow>
                   let area_ha = a / 10000;
                       s = s\<lparr>drawn_area_ha := Some (py_round1 area_ha)\<rparr>;
                       s = s\<lparr>clicked_lat := Some lat, clicked_lon := Some lon\<rparr>;
                       s = s\<lparr>selection_mode := ''polygon''\<rparr>;
                       (som, depth) = predict_soil_metrics (rng E) lat lon;
                       s = s\<lparr>est_som := Some som, est_depth := Some depth\<rparr>;
                       s = s\<lparr>step := 2\<rparr>
                   in if rerun_caught E then (False, Continue, [], s)
                      else (False, Rerun, [], s))
                 else (True, Continue, [CentroidOutside], s)
               else (True, Continue, [], s))))
          else Inr (False, Continue, [], s)))"

text \<open>Lines 222--233, entered when \<^verbatim>\<open>drawing_processed\<close> is false.\<close>

definition click_handler ::
  "('c, 'p, 'g) env \<Rightarrow> 'c map_data option \<Rightarrow> session \<Rightarrow> ctl \<times> toast list \<times> session" where
  "click_handler E md s =
     (case md of None \<Rightarrow> (Continue, [], s)
      | Some m \<Rightarrow>
     (case last_clicked m of None \<Rightarrow> (Continue, [], s)
      | Some c \<Rightarrow>
     let lat = click_lat c; lon = click_lng c
     in if eaa_contains E lon lat then
          if clicked_lat s \<noteq> Some lat then
            let s = s\<lparr>clicked_lat := Some lat, clicked_lon := Some lon\<rparr>;
                s = s\<lparr>drawn_area_ha := None, selection_mode := ''point''\<rparr>;
                (som, depth) = predict_soil_metrics (rng E) lat lon;
                s = s\<lparr>est_som := Some som, est_depth := Some depth\<rparr>;
                s = s\<lparr>step := 2\<rparr>
            in (Rerun, [], s)
          else (Continue, [], s)
        else (Continue, [OutOfBounds], s)))"

text \<open>
  Lines 199--233. An exception of the drawing branch ends the handler, and the run of
  the script, with the session as it was.
\<close>

definition map_handler ::
  "('c, 'p, 'g) env \<Rightarrow> 'c map_data option \<Rightarrow> session
     \<Rightarrow> (py_error + ctl) \<times> toast list \<times> session" where
  "map_handler E md s =
     (case drawing_handler E md s of Inl e \<Rightarrow> (Inl e, [], s)
      | Inr (drawing_processed, c, ts, s1) \<Rightarrow>
          if c = Rerun then (Inr Rerun, ts, s1)
          else if \<not> drawing_processed then
            (let (c2, ts2, s2) = click_handler E md s1 in (Inr c2, ts @ ts2, s2))
          else (Inr Continue, ts, s1))"

subsection \<open>The survey steps (lines 236--338)\<close>

text \<open>
  What the user did in the widgets of the step being drawn: the values of the radio
  buttons, select boxes and number input, and the button pressed, if any.
\<close>

datatype button = NoButton | BackButton | ForwardButton | RestartButton

record ui =
  has_test :: string
  ph_choice :: string
  som_choice :: string
  input_size :: int
  crop_decision :: string
  selectbox_crop :: string
  pressed :: button

text \<open>Python's \<^verbatim>\<open>k in s\<close> on strings.\<close>

fun starts_with :: "string \<Rightarrow> string \<Rightarrow> bool" where
  "starts_with [] s = True"
| "starts_with (k # ks) [] = False"
| "starts_with (k # ks) (c # cs) = (k = c \<and> starts_with ks cs)"

fun py_in :: "string \<Rightarrow> string \<Rightarrow> bool" where
  "py_in k [] = (k = [])"
| "py_in k (c # cs) = (starts_with k (c # cs) \<or> py_in k cs)"

text \<open>\<^verbatim>\<open>navigation_buttons\<close> (lines 71--80); the forward function may raise.\<close>

definition navigation_buttons ::
  "int option \<Rightarrow> (session \<Rightarrow> py_error + session) option \<Rightarrow> button \<Rightarrow> session
     \<Rightarrow> (py_error + ctl) \<times> session" where
  "navigation_buttons back_step forward_fn b s =
     (case (back_step, b) of
        (Some bs, BackButton) \<Rightarrow> (Inr Rerun, s\<lparr>step := bs\<rparr>)
      | _ \<Rightarrow>
     (case (forward_fn, b) of
        (Some f, ForwardButton) \<Rightarrow>
          (case f s of Inl e \<Rightarrow> (Inl e, s) | Inr s' \<Rightarrow> (Inr Rerun, s'))
      | _ \<Rightarrow> (Inr Continue, s)))"

definition ph_map :: "(string \<times> real) list" where
  "ph_map = [(''Below'', 5), (''5.5'', 6), (''6.5'', 7), (''Above'', 8)]"

definition som_map :: "(string \<times> real) list" where
  "som_map = [(''Low'', 30), (''Moderate'', 55), (''High'', 775 / 10)]"

text \<open>\<^verbatim>\<open>next((k for k in d if k in choice), default)\<close>.\<close>

definition first_key_in :: "(string \<times> real) list \<Rightarrow> string \<Rightarrow> string \<Rightarrow> string" where
  "first_key_in d c dflt =
     (case find (\<lambda>k. py_in k c) (map fst d) of Some k \<Rightarrow> k | None \<Rightarrow> dflt)"

definition go_to_step3 :: "ui \<Rightarrow> session \<Rightarrow> py_error + session" where
  "go_to_step3 u s =
     (if has_test u = ''Yes, I will input my data'' then
        let pk = first_key_in ph_map (ph_choice u) ''6.5'';
            sk = first_key_in som_map (som_choice u) ''Moderate''
        in (case (map_of ph_map pk, map_of som_map sk) of
              (Some p, Some m) \<Rightarrow>
                Inr (s\<lparr>display_ph := p, display_som := Some m, step := 3\<rparr>)
            | _ \<Rightarrow> Inl KeyError)
      else Inr (s\<lparr>display_ph := 65 / 10, display_som := est_som s, step := 3\<rparr>))"

text \<open>The three classifications of step 3 (lines 276--288): label and colour.\<close>

definition warn_sign :: string where
  "warn_sign = [CHR 0xE2, CHR 0x9A, CHR 0xA0]"

definition check_mark :: string where
  "check_mark = [CHR 0xE2, CHR 0x9C, CHR 0x93]"

definition som_class :: "real \<Rightarrow> string \<times> string" where
  "som_class som =
     (if som < 40 then (warn_sign @ '' Low Organic Matter'', ''inverse'')
      else if 40 \<le> som \<and> som \<le> 70 then (check_mark @ '' Moderate Organic Matter'', ''normal'')
      else (check_mark @ '' Good Organic Matter'', ''normal''))"

definition ph_class :: "real \<Rightarrow> string \<times> string" where
  "ph_class ph =
     (if ph < 55 / 10 then (warn_sign @ '' Extremely Low'', ''inverse'')
      else if 55 / 10 \<le> ph \<and> ph < 65 / 10 then (warn_sign @ '' Low pH'', ''normal'')
      else if 65 / 10 \<le> ph \<and> ph \<le> 75 / 10 then (check_mark @ '' Good pH'', ''normal'')
      else if 75 / 10 < ph \<and> ph \<le> 85 / 10 then (warn_sign @ '' High pH'', ''normal'')
      else (warn_sign @ '' Extremely High'', ''inverse''))"

definition depth_class :: "int \<Rightarrow> string \<times> string" where
  "depth_class depth =
     (if depth < 30 then (warn_sign @ '' Very Low Depth'', ''inverse'')
      else if 30 \<le> depth \<and> depth \<le> 100 then (check_mark @ '' Adequate Depth'', ''normal'')
      else (check_mark @ '' Very High Depth'', ''normal''))"

text \<open>
  Step 3 compares \<^verbatim>\<open>display_som\<close> and \<^verbatim>\<open>est_depth\<close> with numbers; on
  \<^verbatim>\<open>None\<close> the comparison raises \<^verbatim>\<open>TypeError\<close>.
\<close>

definition step3_diagnostics ::
  "session \<Rightarrow> py_error + ((string \<times> string) \<times> (string \<times> string) \<times> (string \<times> string))" where
  "step3_diagnostics s =
     (case display_som s of None \<Rightarrow> Inl TypeError
      | Some som \<Rightarrow>
     (case est_depth s of None \<Rightarrow> Inl TypeError
      | Some depth \<Rightarrow> Inr (som_class som, ph_class (display_ph s), depth_class depth)))"

text \<open>Line 304, and the number input of line 305, which rejects a value outside its bounds.\<close>

definition default_size :: "session \<Rightarrow> int" where
  "default_size s =
     min (case drawn_area_ha s of
            None \<Rightarrow> saved_farm_size s
          | Some a \<Rightarrow> if a \<noteq> 0 then py_int a else saved_farm_size s)
         500000"

definition number_input :: "int \<Rightarrow> int \<Rightarrow> int \<Rightarrow> ui \<Rightarrow> py_error + int" where
  "number_input min_value max_value v u =
     (if v < min_value \<or> max_value < v then Inl StreamlitAPIException
      else Inr (input_size u))"

text \<open>
  Step 5 (lines 323--335): the credits of the chosen crop's first row, the adjusted
  credits, the location text and the cars figure. A missing crop raises
  \<^verbatim>\<open>IndexError\<close>; arithmetic on
  \<^verbatim>\<open>None\<close> and the format \<^verbatim>\<open>:.4f\<close> of \<^verbatim>\<open>None\<close> raise \<^verbatim>\<open>TypeError\<close>.
\<close>

definition step5_results :: "session \<Rightarrow> py_error + (real \<times> real)" where
  "step5_results s =
     (let crop = selected_crop s; size_ha = saved_farm_size s
      in case find (\<lambda>row. fst row = crop) crop_data of None \<Rightarrow> Inl IndexError
         | Some row \<Rightarrow>
        (case est_depth s of None \<Rightarrow> Inl TypeError
         | Some depth \<Rightarrow>
        (case display_som s of None \<Rightarrow> Inl TypeError
         | Some som \<Rightarrow>
        let adj_credits =
              calculate_carbon_impact (fst (snd row)) (of_int size_ha) (of_int depth) som
        in if selection_mode s \<noteq> ''polygon'' \<and> clicked_lat s = None then Inl TypeError
           else (case cars adj_credits size_ha of Inl e \<Rightarrow> Inl e
                 | Inr c \<Rightarrow> Inr (adj_credits, c)))))"

definition render_step :: "ui \<Rightarrow> session \<Rightarrow> (py_error + ctl) \<times> session" where
  "render_step u s =
     (if step s = 1 then (Inr Continue, s)
      else if step s = 2 then
        (if selection_mode s \<noteq> ''polygon'' \<and> (clicked_lat s = None \<or> clicked_lon s = None)
         then (Inl TypeError, s)
         else navigation_buttons (Some 1) (Some (go_to_step3 u)) (pressed u) s)
      else if step s = 3 then
        (case step3_diagnostics s of Inl e \<Rightarrow> (Inl e, s)
         | Inr labels \<Rightarrow>
             navigation_buttons (Some 2) (Some (\<lambda>s. Inr (s\<lparr>step := 4\<rparr>))) (pressed u) s)
      else if step s = 4 then
        (case number_input 1 500000 (default_size s) u of Inl e \<Rightarrow> (Inl e, s)
         | Inr n \<Rightarrow>
             navigation_buttons (Some 3)
               (Some (\<lambda>s. Inr (s\<lparr>selected_crop := selectbox_crop u,
                                   saved_farm_size := n, step := 5\<rparr>)))
               (pressed u) s)
      else if step s = 5 then
        (case step5_results s of Inl e \<Rightarrow> (Inl e, s)
         | Inr figures \<Rightarrow>
             if pressed u = RestartButton then (Inr Rerun, reset_survey s)
             else (Inr Continue, s))
      else (Inr Continue, s))"

text \<open>
  One run of the script: the map handler, then, unless it raised or asked for a rerun,
  the step.
\<close>

definition script_run ::
  "('c, 'p, 'g) env \<Rightarrow> 'c map_data option \<Rightarrow> ui \<Rightarrow> session
     \<Rightarrow> (py_error + ctl) \<times> toast list \<times> session" where
  "script_run E md u s =
     (let (r, ts, s1) = map_handler E md s
      in if r = Inr Continue then (let (r2, s2) = render_step u s1 in (r2, ts, s2))
         else (r, ts, s1))"

text \<open>
  What the widgets of step 4 can return: the number input keeps its value within its
  bounds, and each select box returns one of its options.
\<close>

definition ui_ok :: "ui \<Rightarrow> bool" where
  "ui_ok u =
     (1 \<le> input_size u \<and> input_size u \<le> 500000 \<and>
      selectbox_crop u \<in> set
        (if crop_decision u = ''Recommend crops for me''
         then [''Flooded Rice'', ''Sweet Corn'', ''Sunn Hemp'', ''Cowpea'']
         else map fst crop_data))"

text \<open>The sessions the script can reach from the defaults, one run at a time.\<close>

inductive reachable :: "('c, 'p, 'g) env \<Rightarrow> session \<Rightarrow> bool"
  for E :: "('c, 'p, 'g) env" where
  init: "reachable E defaults"
| run: "reachable E s \<Longrightarrow> ui_ok u \<Longrightarrow> reachable E (snd (snd (script_run E md u s)))"

subsection \<open>Notions used to state the properties\<close>

text \<open>Line 202 raises on the last drawing.\<close>

definition drawing_raises :: "'c map_data option \<Rightarrow> bool" where
  "drawing_raises md =
     (case md of None \<Rightarrow> False
      | Some m \<Rightarrow>
     (case all_drawings m of None \<Rightarrow> False
      | Some ds \<Rightarrow>
     if ds = [] then False
     else (case geometry_type (last ds) of Inl e \<Rightarrow> True | Inr ty \<Rightarrow> False)))"

text \<open>
  The shape the drawing branch builds at line 204, if it gets that far: the last
  drawing is of type Polygon or MultiPolygon and shapely accepts it.
\<close>

definition drawn_polygon :: "('c, 'p, 'g) env \<Rightarrow> 'c map_data option \<Rightarrow> 'p option" where
  "drawn_polygon E md =
     (case md of None \<Rightarrow> None
      | Some m \<Rightarrow>
     (case all_drawings m of None \<Rightarrow> None
      | Some ds \<Rightarrow>
     if ds = [] then None
     else (case last ds of NotADict \<Rightarrow> None
           | Dict d \<Rightarrow>
          (case geometry d of None \<Rightarrow> None
           | Some NotADict \<Rightarrow> None
           | Some (Dict g) \<Rightarrow>
               if gtype g = Some ''Polygon'' \<or> gtype g = Some ''MultiPolygon''
               then shape E g else None))))"

text \<open>A drawing of polygon type on which shapely raises.\<close>

definition malformed_drawing :: "('c, 'p, 'g) env \<Rightarrow> 'c map_data option \<Rightarrow> bool" where
  "malformed_drawing E md =
     (case md of None \<Rightarrow> False
      | Some m \<Rightarrow>
     (case all_drawings m of None \<Rightarrow> False
      | Some ds \<Rightarrow>
     if ds = [] then False
     else (case last ds of NotADict \<Rightarrow> False
           | Dict d \<Rightarrow>
          (case geometry d of None \<Rightarrow> False
           | Some NotADict \<Rightarrow> False
           | Some (Dict g) \<Rightarrow>
               (gtype g = Some ''Polygon'' \<or> gtype g = Some ''MultiPolygon'')
               \<and> shape E g = None))))"

text \<open>
  The representative point \<open>(lon, lat)\<close> of the map data, the one the handler tests
  against the region: the centroid of the drawn polygon when there is one, the clicked
  point otherwise; none when line 202 raises.
\<close>

definition selection_point :: "('c, 'p, 'g) env \<Rightarrow> 'c map_data option \<Rightarrow> (real \<times> real) option" where
  "selection_point E md =
     (if drawing_raises md then None
      else
     (case drawn_polygon E md of
        Some p \<Rightarrow> Some (centroid E p)
      | None \<Rightarrow>
     (case md of None \<Rightarrow> None
      | Some m \<Rightarrow>
     (case last_clicked m of None \<Rightarrow> None
      | Some c \<Rightarrow> Some (click_lng c, click_lat c)))))"

text \<open>The invariant of the reachable sessions.\<close>

definition known_crop :: "string \<Rightarrow> bool" where
  "known_crop c \<longleftrightarrow> c \<in> set (map fst crop_data)"

definition session_inv :: "session \<Rightarrow> bool" where
  "session_inv s \<longleftrightarrow>
     (2 \<le> step s \<longrightarrow>
        clicked_lat s \<noteq> None \<and> clicked_lon s \<noteq> None \<and>
        est_som s \<noteq> None \<and> est_depth s \<noteq> None) \<and>
     display_som s \<noteq> None \<and>
     known_crop (selected_crop s) \<and>
     1 \<le> saved_farm_size s \<and> saved_farm_size s \<le> 500000"

subsection \<open>A sample environment and sample inputs\<close>

text \<open>
  Concrete stand-ins for the libraries, for evaluating the script on examples: a
  counter as generator, a polygon as the ring of its \<open>(lon, lat)\<close> vertices with the
  mean of the vertices as centroid, a fixed projected area \<open>a\<close>, and the box
  \<open>[-81, -80] \<times> [26, 27]\<close> as region.
\<close>

definition sample_rng :: "int rng_lib" where
  "sample_rng =
     \<lparr>default_rng = (\<lambda>seed. seed),
      uniform = (\<lambda>g lo hi. (lo + (hi - lo) * of_int (g mod 100) / 100, g + 1)),
      choice = (\<lambda>g xs ps.
        (case drop (nat (g mod int (length xs))) xs of [] \<Rightarrow> [] | x # _ \<Rightarrow> x, g + 1)),
      integers = (\<lambda>g lo hi. (lo + g mod (hi - lo), g + 1))\<rparr>"

definition sample_env :: "real option \<Rightarrow> ((real \<times> real) list, (real \<times> real) list, int) env" where
  "sample_env a =
     \<lparr>shape = (\<lambda>g. if length (coordinates g) < 3 then None else Some (coordinates g)),
      centroid = (\<lambda>p. (sum_list (map fst p) / of_nat (length p),
                        sum_list (map snd p) / of_nat (length p))),
      area_m2 = (\<lambda>p. a),
      eaa_contains = (\<lambda>lon lat. - 81 \<le> lon \<and> lon \<le> - 80 \<and> 26 \<le> lat \<and> lat \<le> 27),
      rerun_caught = True,
      rng = sample_rng\<rparr>"

definition polygon_drawing :: "(real \<times> real) list \<Rightarrow> (real \<times> real) list drawing json" where
  "polygon_drawing ps =
     Dict \<lparr>geometry = Some (Dict \<lparr>gtype = Some ''Polygon'', coordinates = ps\<rparr>)\<rparr>"

text \<open>
  A feature whose geometry is \<^verbatim>\<open>null\<close>, as in
  \<^verbatim>\<open>{"type": "Feature", "properties": {}, "geometry": null}\<close>, alone in the map data.
\<close>

definition null_geometry_drawing :: "'c map_data option" where
  "null_geometry_drawing =
     Some \<lparr>all_drawings = Some [Dict \<lparr>geometry = Some NotADict\<rparr>], last_clicked = None\<rparr>"

text \<open>A click inside the region, and a second one on the same latitude.\<close>

definition click_inside :: "(real \<times> real) list map_data option" where
  "click_inside =
     Some \<lparr>all_drawings = None, last_clicked = Some \<lparr>click_lat = 265 / 10, click_lng = - 805 / 10\<rparr>\<rparr>"

definition click_same_lat :: "(real \<times> real) list map_data option" where
  "click_same_lat =
     Some \<lparr>all_drawings = None, last_clicked = Some \<lparr>click_lat = 265 / 10, click_lng = - 809 / 10\<rparr>\<rparr>"

text \<open>A square inside the region, a square outside it, and a drawing shapely rejects
  that comes with the sample click.\<close>

definition square_inside :: "(real \<times> real) list map_data option" where
  "square_inside =
     Some \<lparr>all_drawings = Some [polygon_drawing
              [(- 806 / 10, 264 / 10), (- 804 / 10, 264 / 10),
               (- 804 / 10, 266 / 10), (- 806 / 10, 266 / 10)]],
           last_clicked = None\<rparr>"

definition square_outside :: "(real \<times> real) list map_data option" where
  "square_outside =
     Some \<lparr>all_drawings = Some [polygon_drawing [(0, 0), (1, 0), (1, 1), (0, 1)]],
           last_clicked = Some \<lparr>click_lat = 265 / 10, click_lng = - 805 / 10\<rparr>\<rparr>"

definition broken_drawing_with_click :: "(real \<times> real) list map_data option" where
  "broken_drawing_with_click =
     Some \<lparr>all_drawings = Some [polygon_drawing []],
           last_clicked = Some \<lparr>click_lat = 265 / 10, click_lng = - 805 / 10\<rparr>\<rparr>"

text \<open>The user presses the forward button, leaving every widget at its first value.\<close>

definition ui_forward :: ui where
  "ui_forward =
     \<lparr>has_test = ''No, run spatial models'', ph_choice = ''Acidic (Below 5.5)'',
      som_choice = ''Low (Below 40%)'', input_size = 100,
      crop_decision = ''I have a crop in mind'', selectbox_crop = ''Sugarcane'',
      pressed = ForwardButton\<rparr>"

text \<open>The session after the sample click, and after going forward to steps 4 and 5.\<close>

definition session_clicked :: session where
  "session_clicked =
     snd (snd (script_run (sample_env None) click_inside (ui_forward\<lparr>pressed := NoButton\<rparr>) defaults))"

definition session_step5 :: session where
  "session_step5 =
     (let s3 = snd (snd (script_run (sample_env None) click_inside ui_forward session_clicked));
          s4 = snd (snd (script_run (sample_env None) click_inside ui_forward s3))
      in snd (snd (script_run (sample_env None) click_inside ui_forward s4)))"


text \<open>The same after drawing a square of half a hectare.\<close>

definition session_small_step4 :: session where
  "session_small_step4 =
     (let E = sample_env (Some 5000);
          s2 = snd (snd (script_run E square_inside (ui_forward\<lparr>pressed := NoButton\<rparr>) defaults));
          s3 = snd (snd (script_run E square_inside ui_forward s2))
      in snd (snd (script_run E square_inside ui_forward s3)))"

section \<open>Theorems\<close>

subsection \<open>The carbon model\<close>

text \<open>
  C1. For every base_credits, farm_size, depth_cm and som_pct the adjusted
  credits are base_credits * farm_size * min(depth_cm / 30, 1) * min(som_pct / 60, 1).
\<close>

theorem calculate_carbon_impact_formula:
  "calculate_carbon_impact base_credits farm_size depth_cm som_pct =
     base_credits * farm_size * min (depth_cm / 30) 1 * min (som_pct / 60) 1"
  by (simp add: calculate_carbon_impact_def Let_def)

subsection \<open>The sample inputs, evaluated\<close>

lemma session_clicked_eq:
  "session_clicked =
     \<lparr>step = 2, clicked_lat = Some (265 / 10), clicked_lon = Some (- 805 / 10),
      est_som = Some (269 / 5), est_depth = Some 25, display_ph = 65 / 10,
      display_som = Some 0, saved_farm_size = 100, selected_crop = ''Sugarcane'',
      drawn_area_ha = None, selection_mode = ''point'', map_key = 0\<rparr>"
  by code_simp

lemma session_step5_eq:
  "session_step5 =
     \<lparr>step = 5, clicked_lat = Some (265 / 10), clicked_lon = Some (- 805 / 10),
      est_som = Some (269 / 5), est_depth = Some 25, display_ph = 65 / 10,
      display_som = Some (269 / 5), saved_farm_size = 100, selected_crop = ''Sugarcane'',
      drawn_area_ha = None, selection_mode = ''point'', map_key = 0\<rparr>"
  by code_simp


lemma ui_forward_ok: "ui_ok ui_forward" "ui_ok (ui_forward\<lparr>pressed := b\<rparr>)"
  by (simp_all add: ui_ok_def ui_forward_def crop_data_def)

lemma reachable_session_clicked: "reachable (sample_env None) session_clicked"
  unfolding session_clicked_def
  by (intro reachable.run reachable.init ui_forward_ok)

lemma reachable_session_step5: "reachable (sample_env None) session_step5"
  unfolding session_step5_def Let_def
  by (intro reachable.run reachable_session_clicked ui_forward_ok)


subsection \<open>The invariant\<close>

lemma known_crop_ui: "ui_ok u \<Longrightarrow> known_crop (selectbox_crop u)"
  by (auto simp: ui_ok_def known_crop_def crop_data_def split: if_splits)

lemma known_crop_find: "known_crop c \<Longrightarrow> \<exists>row. find (\<lambda>row. fst row = c) crop_data = Some row"
  by (cases "find (\<lambda>row. fst row = c) crop_data") (auto simp: known_crop_def find_None_iff)

lemma inv_defaults: "session_inv defaults"
  by (simp add: session_inv_def defaults_def known_crop_def crop_data_def)

lemma inv_reset: "session_inv (reset_survey s)"
  by (simp add: session_inv_def reset_survey_def defaults_def known_crop_def crop_data_def)

lemma inv_drawing:
  "session_inv s \<Longrightarrow> drawing_handler E md s = Inr (p, c, ts, s') \<Longrightarrow> session_inv s'"
  by (auto simp: drawing_handler_def session_inv_def Let_def
      split: option.splits prod.splits sum.splits json.splits if_splits)

lemma inv_click: "session_inv s \<Longrightarrow> session_inv (snd (snd (click_handler E md s)))"
  by (auto simp: click_handler_def session_inv_def Let_def split: option.splits prod.splits)

lemma inv_map_handler:
  assumes "session_inv s"
  shows "session_inv (snd (snd (map_handler E md s)))"
proof (cases "drawing_handler E md s")
  case (Inl e)
  then show ?thesis using assms by (simp add: map_handler_def)
next
  case (Inr r)
  obtain p c ts s1 where r: "r = (p, c, ts, s1)" by (cases r)
  have "session_inv s1" using inv_drawing[OF assms] Inr r by blast
  then show ?thesis using inv_click[of s1 E md] Inr r
    by (auto simp: map_handler_def Let_def split: prod.splits)
qed

lemma inv_nav:
  assumes "session_inv s" "\<And>b. back = Some b \<Longrightarrow> session_inv (s\<lparr>step := b\<rparr>)"
    "\<And>f s'. fwd = Some f \<Longrightarrow> f s = Inr s' \<Longrightarrow> session_inv s'"
  shows "session_inv (snd (navigation_buttons back fwd b s))"
  using assms
  by (auto simp: navigation_buttons_def split: option.splits button.splits sum.splits)

lemma inv_go3: "session_inv s \<Longrightarrow> step s = 2 \<Longrightarrow> go_to_step3 u s = Inr s' \<Longrightarrow> session_inv s'"
  by (auto simp: go_to_step3_def session_inv_def Let_def split: if_splits option.splits)

lemma inv_render:
  assumes u: "ui_ok u" and s: "session_inv s"
  shows "session_inv (snd (render_step u s))"
proof -
  consider "step s = 2" | "step s = 3" | "step s = 4" | "step s = 5"
    | "step s \<noteq> 2" "step s \<noteq> 3" "step s \<noteq> 4" "step s \<noteq> 5"
    by blast
  then show ?thesis
  proof cases
    case 1
    have "session_inv (snd (navigation_buttons (Some 1) (Some (go_to_step3 u)) (pressed u) s))"
      using s 1 by (intro inv_nav) (auto simp: session_inv_def dest: inv_go3[OF s 1])
    then show ?thesis using 1 s by (simp add: render_step_def)
  next
    case 2
    have "session_inv (snd (navigation_buttons (Some 2) (Some (\<lambda>s. Inr (s\<lparr>step := 4\<rparr>))) (pressed u) s))"
      using s 2 by (intro inv_nav) (auto simp: session_inv_def)
    then show ?thesis using 2 s by (simp add: render_step_def split: sum.splits)
  next
    case 3
    have "session_inv (snd (navigation_buttons (Some 3)
               (Some (\<lambda>s. Inr (s\<lparr>selected_crop := selectbox_crop u,
                                   saved_farm_size := n, step := 5\<rparr>)))
               (pressed u) s))"
      if "number_input 1 500000 (default_size s) u = Inr n" for n
      using s 3 that known_crop_ui[OF u] u
      by (intro inv_nav) (auto simp: session_inv_def number_input_def ui_ok_def split: if_splits)
    then show ?thesis using 3 s by (simp add: render_step_def split: sum.splits)
  next
    case 4
    then show ?thesis using s by (simp add: render_step_def inv_reset split: sum.splits)
  next
    case 5
    then show ?thesis using s by (simp add: render_step_def)
  qed
qed

lemma inv_script_run: "ui_ok u \<Longrightarrow> session_inv s \<Longrightarrow> session_inv (snd (snd (script_run E md u s)))"
  using inv_map_handler[of s E md] inv_render[of u "snd (snd (map_handler E md s))"]
  by (auto simp: script_run_def Let_def split: prod.splits)

lemma reachable_inv: "reachable E s \<Longrightarrow> session_inv s"
  by (induction rule: reachable.induct) (auto intro: inv_defaults inv_script_run)

lemma cars_positive: "0 < n \<Longrightarrow> cars a n = Inr (a / of_int n / (46 / 10))"
  by (simp add: cars_def py_truediv_def)

lemma step3_ok: "session_inv s \<Longrightarrow> 2 \<le> step s \<Longrightarrow> \<exists>r. step3_diagnostics s = Inr r"
  by (auto simp: session_inv_def step3_diagnostics_def)

lemma step5_ok:
  assumes "session_inv s" "2 \<le> step s"
  shows "\<exists>r. step5_results s = Inr r"
proof -
  have "known_crop (selected_crop s)"
    using assms by (simp add: session_inv_def)
  then obtain row where r: "find (\<lambda>row. fst row = selected_crop s) crop_data = Some row"
    using known_crop_find by blast
  obtain d m l where f: "est_depth s = Some d" "display_som s = Some m" "clicked_lat s = Some l"
    using assms by (auto simp: session_inv_def)
  have "0 < saved_farm_size s" using assms by (simp add: session_inv_def)
  then show ?thesis using r f by (simp add: step5_results_def Let_def cars_positive)
qed

lemma reachable_step3_diagnostics: "reachable E s \<Longrightarrow> step s = 3 \<Longrightarrow> \<exists>r. step3_diagnostics s = Inr r"
  using step3_ok[OF reachable_inv, of E s] by simp

lemma reachable_step5_results: "reachable E s \<Longrightarrow> step s = 5 \<Longrightarrow> \<exists>r. step5_results s = Inr r"
  using step5_ok[OF reachable_inv, of E s] by simp

subsection \<open>Restart\<close>

lemma reset_survey_eq:
  "reset_survey s =
     \<lparr>step = 1, clicked_lat = None, clicked_lon = None, est_som = None,
      est_depth = None, display_ph = 65 / 10, display_som = Some 0,
      saved_farm_size = 100, selected_crop = ''Sugarcane'', drawn_area_ha = None,
      selection_mode = ''point'', map_key = map_key s + 1\<rparr>"
  by (simp add: reset_survey_def defaults_def)

text \<open>
  C7. In every session reachable at step 5, the restart button runs
  \<^verbatim>\<open>reset_survey\<close>: every field is back at its documented default, the step is 1
  again, and the counter \<^verbatim>\<open>map_key\<close> is strictly larger than before.
\<close>

theorem restart_resets_session:
  assumes "reachable E s" "step s = 5" "pressed u = RestartButton"
  shows "render_step u s = (Inr Rerun, reset_survey s) \<and>
         reset_survey s =
           \<lparr>step = 1, clicked_lat = None, clicked_lon = None, est_som = None,
            est_depth = None, display_ph = 65 / 10, display_som = Some 0,
            saved_farm_size = 100, selected_crop = ''Sugarcane'', drawn_area_ha = None,
            selection_mode = ''point'', map_key = map_key s + 1\<rparr> \<and>
         reset_survey s = defaults\<lparr>map_key := map_key s + 1\<rparr> \<and>
         map_key s < map_key (reset_survey s)"
proof -
  obtain r where "step5_results s = Inr r"
    using reachable_step5_results[OF assms(1,2)] by blast
  then have "render_step u s = (Inr Rerun, reset_survey s)"
    using assms(2,3) by (simp add: render_step_def)
  then show ?thesis by (simp add: reset_survey_eq defaults_def)
qed

theorem restart_resets_session_witness:
  "step session_step5 = 5 \<and>
   render_step (ui_forward\<lparr>pressed := RestartButton\<rparr>) session_step5 =
     (Inr Rerun, defaults\<lparr>map_key := 1\<rparr>) \<and>
   map_key session_step5 < map_key (reset_survey session_step5)"
proof -
  have a: "step session_step5 = 5" "map_key session_step5 = 0"
    by (simp_all add: session_step5_eq)
  have b: "pressed (ui_forward\<lparr>pressed := RestartButton\<rparr>) = RestartButton" by simp
  note th = restart_resets_session[OF reachable_session_step5 a(1) b]
  from th have 1: "render_step (ui_forward\<lparr>pressed := RestartButton\<rparr>) session_step5 =
      (Inr Rerun, reset_survey session_step5)"
    by (rule conjunct1)
  from th have 2: "reset_survey session_step5 = defaults\<lparr>map_key := map_key session_step5 + 1\<rparr>"
    by blast
  from th have 3: "map_key session_step5 < map_key (reset_survey session_step5)"
    by blast
  show ?thesis using 1 2 3 a by simp
qed

subsection \<open>Populated fields\<close>

text \<open>
  C9. In every reachable session whose step is 2 or more, \<^verbatim>\<open>clicked_lat\<close>,
  \<^verbatim>\<open>clicked_lon\<close>, \<^verbatim>\<open>est_som\<close> and \<^verbatim>\<open>est_depth\<close> are populated; so
  the reads of steps 3 and 5 find them (lemmas \<open>reachable_step3_diagnostics\<close> and
  \<open>reachable_step5_results\<close>).
\<close>

theorem populated_from_step2:
  assumes "reachable E s" "2 \<le> step s"
  shows "clicked_lat s \<noteq> None \<and> clicked_lon s \<noteq> None \<and> est_som s \<noteq> None \<and> est_depth s \<noteq> None"
  using reachable_inv[OF assms(1)] assms(2) by (simp add: session_inv_def)

theorem populated_from_step2_witness:
  "2 \<le> step session_clicked \<and>
   clicked_lat session_clicked \<noteq> None \<and> clicked_lon session_clicked \<noteq> None \<and>
   est_som session_clicked \<noteq> None \<and> est_depth session_clicked \<noteq> None"
proof -
  have a: "2 \<le> step session_clicked" by (simp add: session_clicked_eq)
  show ?thesis using populated_from_step2[OF reachable_session_clicked a] a by simp
qed

subsection \<open>The map handler\<close>

lemma drawing_raises_error:
  "drawing_raises md \<Longrightarrow> drawing_handler E md s = Inl AttributeError"
  by (auto simp: drawing_raises_def drawing_handler_def geometry_type_def Let_def
      split: option.splits if_splits sum.splits json.splits)

lemma drawing_none:
  "drawn_polygon E md = None \<Longrightarrow> \<not> drawing_raises md \<Longrightarrow>
   drawing_handler E md s = Inr (False, Continue, [], s)"
  by (auto simp: drawn_polygon_def drawing_raises_def drawing_handler_def geometry_type_def
      Let_def split: option.splits if_splits sum.splits json.splits)

lemma polygon_not_raises: "drawn_polygon E md = Some p \<Longrightarrow> \<not> drawing_raises md"
  by (auto simp: drawn_polygon_def drawing_raises_def geometry_type_def
      split: option.splits if_splits json.splits)

lemma drawing_rejected:
  assumes "drawn_polygon E md = Some p" "centroid E p = (lon, lat)"
    "clicked_lat s = Some lat \<or> \<not> eaa_contains E lon lat"
  shows "\<exists>ts. drawing_handler E md s = Inr (True, Continue, ts, s)"
  using assms
  by (auto simp: drawn_polygon_def drawing_handler_def geometry_type_def Let_def
      split: option.splits if_splits json.splits)

lemma drawing_same_lat:
  assumes "drawn_polygon E md = Some p" "centroid E p = (lon, lat)" "clicked_lat s = Some lat"
  shows "drawing_handler E md s = Inr (True, Continue, [], s)"
  using assms
  by (auto simp: drawn_polygon_def drawing_handler_def geometry_type_def Let_def
      split: option.splits if_splits json.splits)

lemma malformed_no_polygon:
  "malformed_drawing E md \<Longrightarrow> drawn_polygon E md = None \<and> \<not> drawing_raises md"
  by (auto simp: drawn_polygon_def malformed_drawing_def drawing_raises_def geometry_type_def
      split: option.splits if_splits json.splits)

lemma selection_not_raises: "selection_point E md = Some pt \<Longrightarrow> \<not> drawing_raises md"
  by (auto simp: selection_point_def split: if_splits)

lemma click_of_selection:
  assumes "drawn_polygon E md = None" "selection_point E md = Some (lon, lat)"
  shows "\<exists>m c. md = Some m \<and> last_clicked m = Some c \<and> click_lng c = lon \<and> click_lat c = lat"
proof -
  have nr: "\<not> drawing_raises md" using selection_not_raises[OF assms(2)] .
  show ?thesis
  proof (cases md)
    case None
    then show ?thesis using assms nr by (simp add: selection_point_def)
  next
    case (Some m)
    show ?thesis
    proof (cases "last_clicked m")
      case None
      then show ?thesis using assms nr Some by (simp add: selection_point_def)
    next
      case (Some c)
      then show ?thesis using assms nr \<open>md = Some m\<close> by (simp add: selection_point_def)
    qed
  qed
qed

lemma click_same_lat:
  assumes "last_clicked m = Some c" "eaa_contains E (click_lng c) (click_lat c)"
    "clicked_lat s = Some (click_lat c)"
  shows "click_handler E (Some m) s = (Continue, [], s)"
  using assms by (simp add: click_handler_def Let_def)

lemma click_outside:
  assumes "last_clicked m = Some c" "\<not> eaa_contains E (click_lng c) (click_lat c)"
  shows "click_handler E (Some m) s = (Continue, [OutOfBounds], s)"
  using assms by (simp add: click_handler_def Let_def)

lemma click_none:
  assumes "md = None \<or> (\<exists>m. md = Some m \<and> last_clicked m = None)"
  shows "click_handler E md s = (Continue, [], s)"
  using assms by (auto simp: click_handler_def)

lemma map_handler_no_polygon:
  assumes "drawn_polygon E md = None" "\<not> drawing_raises md"
    "click_handler E md s = (c, ts, s')"
  shows "map_handler E md s = (Inr c, ts, s')"
  using assms by (simp add: map_handler_def drawing_none)

text \<open>
  C10. When the representative point of the map data lies inside the region and its
  latitude equals the stored \<^verbatim>\<open>clicked_lat\<close>, the handler returns the session as it
  was, asks for no rerun and shows no toast, whatever the longitude: only the latitude
  is compared (lines 206 and 225).
\<close>

theorem same_latitude_ignored:
  assumes "selection_point E md = Some (lon, lat)" "eaa_contains E lon lat"
    "clicked_lat s = Some lat"
  shows "map_handler E md s = (Inr Continue, [], s)"
proof (cases "drawn_polygon E md")
  case None
  obtain m c where "md = Some m" "last_clicked m = Some c" "click_lng c = lon" "click_lat c = lat"
    using click_of_selection[OF None assms(1)] by blast
  then have "click_handler E md s = (Continue, [], s)"
    using click_same_lat[of m c E s] assms(2,3) by simp
  then show ?thesis
    by (rule map_handler_no_polygon[OF None selection_not_raises[OF assms(1)]])
next
  case (Some p)
  then have "centroid E p = (lon, lat)"
    using assms(1) selection_not_raises[OF assms(1)] by (simp add: selection_point_def)
  then show ?thesis using drawing_same_lat[OF Some _ assms(3)] by (simp add: map_handler_def)
qed

theorem same_latitude_ignored_witness:
  "selection_point (sample_env None) click_same_lat = Some (- 809 / 10, 265 / 10) \<and>
   eaa_contains (sample_env None) (- 809 / 10) (265 / 10) \<and>
   clicked_lat session_clicked = Some (265 / 10) \<and>
   clicked_lon session_clicked = Some (- 805 / 10) \<and>
   map_handler (sample_env None) click_same_lat session_clicked =
     (Inr Continue, [], session_clicked)"
proof -
  have a: "selection_point (sample_env None) click_same_lat = Some (- 809 / 10, 265 / 10)"
    by code_simp
  have b: "eaa_contains (sample_env None) (- 809 / 10) (265 / 10)"
    by code_simp
  have c: "clicked_lat session_clicked = Some (265 / 10)"
    and d: "clicked_lon session_clicked = Some (- 805 / 10)"
    by (simp_all add: session_clicked_eq)
  show ?thesis using same_latitude_ignored[OF a b c] a b c d by simp
qed

subsection \<open>Rejected selections and malformed drawings\<close>

text \<open>
  When line 202 does not raise and the representative point of the map data lies
  outside the region, or there is none, the handler leaves the session as it was and
  does not stop the script.
\<close>

lemma outside_keeps_session:
  assumes nr: "\<not> drawing_raises md"
    and out: "case selection_point E md of None \<Rightarrow> True
     | Some (lon, lat) \<Rightarrow> \<not> eaa_contains E lon lat"
  shows "fst (map_handler E md s) = Inr Continue \<and> snd (snd (map_handler E md s)) = s"
proof (cases "drawn_polygon E md")
  case None
  note mh = map_handler_no_polygon[OF None nr]
  show ?thesis
  proof (cases "selection_point E md")
    case None
    then have "md = None \<or> (\<exists>m. md = Some m \<and> last_clicked m = None)"
      using \<open>drawn_polygon E md = None\<close> nr
      by (cases md) (auto simp: selection_point_def split: option.splits)
    then show ?thesis using click_none[of md E s] mh by simp
  next
    case (Some pt)
    obtain lon lat where pt: "pt = (lon, lat)" by (cases pt)
    obtain m c where c: "md = Some m" "last_clicked m = Some c" "click_lng c = lon" "click_lat c = lat"
      using click_of_selection[OF \<open>drawn_polygon E md = None\<close>] Some pt by blast
    have "\<not> eaa_contains E lon lat" using out Some pt by simp
    then have "click_handler E md s = (Continue, [OutOfBounds], s)"
      using click_outside[of m c E s] c by simp
    then show ?thesis using mh by simp
  qed
next
  case (Some p)
  obtain lon lat where c: "centroid E p = (lon, lat)" by (cases "centroid E p")
  then have "\<not> eaa_contains E lon lat" using out Some nr by (simp add: selection_point_def)
  then show ?thesis using drawing_rejected[OF Some c, of s]
    by (auto simp: map_handler_def)
qed

text \<open>
  A drawing of polygon type on which shapely raises is skipped: the exception is caught
  at line 220, \<^verbatim>\<open>drawing_processed\<close> stays false, and the handler does what
  \<^verbatim>\<open>last_clicked\<close> makes it do.
\<close>

lemma malformed_skipped:
  assumes "malformed_drawing E md" "click_handler E md s = (c, ts, s')"
  shows "map_handler E md s = (Inr c, ts, s')"
  using assms malformed_no_polygon[OF assms(1)] by (simp add: map_handler_no_polygon)

text \<open>The sample square outside the region is refused; the sample broken drawing is skipped.\<close>

lemma square_outside_rejected:
  "map_handler (sample_env None) square_outside defaults =
     (Inr Continue, [CentroidOutside], defaults)"
  by code_simp

lemma broken_drawing_skipped:
  "malformed_drawing (sample_env None) broken_drawing_with_click \<and>
   map_handler (sample_env None) broken_drawing_with_click session_clicked =
     (Inr Continue, [], session_clicked)"
  by code_simp

lemma raising_drawing_ends_run:
  assumes "drawing_raises md"
  shows "map_handler E md s = (Inl AttributeError, [], s)"
    and "script_run E md u s = (Inl AttributeError, [], s)"
  using assms by (simp_all add: map_handler_def script_run_def drawing_raises_error)

text \<open>
  C2. The handler is to absorb every malformed drawing payload, with no exception
  leaving it. It does not: for a drawing whose geometry is \<^verbatim>\<open>null\<close>, line 202
  raises \<^verbatim>\<open>AttributeError\<close> before the \<^verbatim>\<open>try\<close> of line 203 is entered. The
  exception leaves the handler and ends the run of the script; the session is as it was.
\<close>

theorem null_geometry_raises:
  "drawing_raises (null_geometry_drawing :: 'c map_data option) \<and>
   map_handler E (null_geometry_drawing :: 'c map_data option) s = (Inl AttributeError, [], s) \<and>
   script_run E (null_geometry_drawing :: 'c map_data option) u s = (Inl AttributeError, [], s)"
proof -
  have "drawing_raises (null_geometry_drawing :: 'c map_data option)"
    by (simp add: drawing_raises_def null_geometry_drawing_def geometry_type_def)
  then show ?thesis using raising_drawing_ends_run by blast
qed

subsection \<open>The soil estimator\<close>

text \<open>
  C3. The soil estimate is a function of the coordinates alone, and of them only
  through the seed: the generator is created inside the call from the seed, and no other
  state is read. Two calls with the same coordinates, or with coordinates of the same
  seed, return the same pair, whatever the generator library.
\<close>

theorem predict_soil_metrics_deterministic:
  assumes "seed_of lat' lon' = seed_of lat lon"
  shows "predict_soil_metrics R lat' lon' = predict_soil_metrics R lat lon"
  using assms by (simp add: predict_soil_metrics_def)

theorem predict_soil_metrics_deterministic_witness:
  "seed_of 2 1 = seed_of 1 2 \<and>
   predict_soil_metrics sample_rng 2 1 = predict_soil_metrics sample_rng 1 2 \<and>
   predict_soil_metrics sample_rng 1 2 = (25, 70)"
proof -
  have a: "seed_of 2 1 = seed_of 1 2" by code_simp
  have b: "predict_soil_metrics sample_rng 1 2 = (25, 70)" by code_simp
  show ?thesis using predict_soil_metrics_deterministic[OF a, of sample_rng] a b by simp
qed

subsection \<open>Monotonicity of the carbon model\<close>

lemma crop_credits_positive: "(crop, credits, released) \<in> set crop_data \<Longrightarrow> 0 < credits"
  by (auto simp: crop_data_def)

lemma cci_mono_farm:
  assumes "0 \<le> b" "0 \<le> d" "0 \<le> s" "f \<le> f'"
  shows "calculate_carbon_impact b f d s \<le> calculate_carbon_impact b f' d s"
proof -
  have "0 \<le> min (d / 30) 1" "0 \<le> min (s / 60) 1" using assms by simp_all
  moreover have "b * f \<le> b * f'" using assms by (simp add: mult_left_mono)
  ultimately show ?thesis
    by (simp add: calculate_carbon_impact_def Let_def mult_right_mono)
qed

lemma cci_mono_depth:
  assumes "0 \<le> b" "0 \<le> f" "0 \<le> s" "d \<le> d'"
  shows "calculate_carbon_impact b f d s \<le> calculate_carbon_impact b f d' s"
proof -
  have "0 \<le> b * f" "0 \<le> min (s / 60) 1" using assms by simp_all
  moreover have "min (d / 30) 1 \<le> min (d' / 30) 1" using assms by simp
  ultimately show ?thesis
    by (simp add: calculate_carbon_impact_def Let_def mult_left_mono mult_right_mono)
qed

lemma cci_mono_som:
  assumes "0 \<le> b" "0 \<le> f" "0 \<le> d" "s \<le> s'"
  shows "calculate_carbon_impact b f d s \<le> calculate_carbon_impact b f d s'"
proof -
  have "0 \<le> b * f * min (d / 30) 1" using assms by simp
  moreover have "min (s / 60) 1 \<le> min (s' / 60) 1" using assms by simp
  ultimately show ?thesis
    by (simp add: calculate_carbon_impact_def Let_def mult_left_mono)
qed

text \<open>
  C4. On the inputs the model is called with, a non-negative base credit (those of
  \<open>crop_data\<close> are positive) and non-negative farm size, depth and organic matter, the
  adjusted credits are non-decreasing in the farm size, in the depth and in the organic
  matter; they do not depend on the depth from 30 on, nor on the organic matter from 60
  on. The depth factor is below 1 at depth 29 and exactly 1 at depths 30 and 150.
\<close>

theorem carbon_impact_monotone:
  "(0 \<le> b \<and> 0 \<le> d \<and> 0 \<le> s \<and> f \<le> f' \<longrightarrow>
      calculate_carbon_impact b f d s \<le> calculate_carbon_impact b f' d s) \<and>
   (0 \<le> b \<and> 0 \<le> f \<and> 0 \<le> s \<and> d \<le> d' \<longrightarrow>
      calculate_carbon_impact b f d s \<le> calculate_carbon_impact b f d' s) \<and>
   (0 \<le> b \<and> 0 \<le> f \<and> 0 \<le> d \<and> s \<le> s' \<longrightarrow>
      calculate_carbon_impact b f d s \<le> calculate_carbon_impact b f d s') \<and>
   (30 \<le> d \<and> 30 \<le> d' \<longrightarrow>
      calculate_carbon_impact b f d s = calculate_carbon_impact b f d' s) \<and>
   (60 \<le> s \<and> 60 \<le> s' \<longrightarrow>
      calculate_carbon_impact b f d s = calculate_carbon_impact b f d s') \<and>
   calculate_carbon_impact 1 1 29 60 < 1 \<and>
   calculate_carbon_impact 1 1 30 60 = 1 \<and>
   calculate_carbon_impact 1 1 150 60 = 1"
proof (intro conjI impI)
  show "calculate_carbon_impact b f d s \<le> calculate_carbon_impact b f' d s"
    if "0 \<le> b \<and> 0 \<le> d \<and> 0 \<le> s \<and> f \<le> f'"
    using that cci_mono_farm by blast
  show "calculate_carbon_impact b f d s \<le> calculate_carbon_impact b f d' s"
    if "0 \<le> b \<and> 0 \<le> f \<and> 0 \<le> s \<and> d \<le> d'"
    using that cci_mono_depth by blast
  show "calculate_carbon_impact b f d s \<le> calculate_carbon_impact b f d s'"
    if "0 \<le> b \<and> 0 \<le> f \<and> 0 \<le> d \<and> s \<le> s'"
    using that cci_mono_som by blast
  show "calculate_carbon_impact b f d s = calculate_carbon_impact b f d' s"
    if "30 \<le> d \<and> 30 \<le> d'"
    using that by (simp add: calculate_carbon_impact_def Let_def)
  show "calculate_carbon_impact b f d s = calculate_carbon_impact b f d s'"
    if "60 \<le> s \<and> 60 \<le> s'"
    using that by (simp add: calculate_carbon_impact_def Let_def)
  show "calculate_carbon_impact 1 1 29 60 < 1" "calculate_carbon_impact 1 1 30 60 = 1"
    "calculate_carbon_impact 1 1 150 60 = 1"
    by (simp_all add: calculate_carbon_impact_def)
qed

theorem carbon_impact_monotone_witness:
  "calculate_carbon_impact (675 / 100) 100 20 50 \<le> calculate_carbon_impact (675 / 100) 200 20 50 \<and>
   calculate_carbon_impact (675 / 100) 100 20 50 \<le> calculate_carbon_impact (675 / 100) 100 29 50 \<and>
   calculate_carbon_impact (675 / 100) 100 20 50 \<le> calculate_carbon_impact (675 / 100) 100 20 59 \<and>
   calculate_carbon_impact (675 / 100) 100 30 60 = calculate_carbon_impact (675 / 100) 100 150 60 \<and>
   calculate_carbon_impact (675 / 100) 100 30 60 = calculate_carbon_impact (675 / 100) 100 30 85"
  using carbon_impact_monotone[of "675 / 100" 20 50 100 200 29 59]
    carbon_impact_monotone[of "675 / 100" 30 60 100 100 150 85]
  by simp

subsection \<open>Cars\<close>

text \<open>
  C5. The cars figure is \<open>adj_credits / size / 4.6\<close> for a positive farm size, and 0,
  with no exception raised, for the farm size 0.
\<close>

theorem cars_offset:
  "(0 < size_ha \<longrightarrow> cars adj_credits size_ha = Inr (adj_credits / of_int size_ha / (46 / 10))) \<and>
   cars adj_credits 0 = Inr 0"
  by (simp add: cars_def py_truediv_def)

theorem cars_offset_witness:
  "(0::int) < 100 \<and> cars 675 100 = Inr (675 / 100 / (46 / 10)) \<and> cars 675 0 = Inr 0"
  using cars_offset[of 100 675] by simp

subsection \<open>Labels\<close>

text \<open>
  C6. The labels of step 3: organic matter 35 is Low, 55 Moderate, 75 Good; pH 5.0 is
  Extremely Low, 6.0 Low pH, 7.0 Good pH, 8.0 High pH, 9.0 Extremely High. Each label
  starts with its warning sign or check mark; those of the organic matter end in
  "Organic Matter".
\<close>

theorem diagnostic_labels:
  "fst (som_class 35) = warn_sign @ '' Low Organic Matter'' \<and>
   fst (som_class 55) = check_mark @ '' Moderate Organic Matter'' \<and>
   fst (som_class 75) = check_mark @ '' Good Organic Matter'' \<and>
   fst (ph_class 5) = warn_sign @ '' Extremely Low'' \<and>
   fst (ph_class 6) = warn_sign @ '' Low pH'' \<and>
   fst (ph_class 7) = check_mark @ '' Good pH'' \<and>
   fst (ph_class 8) = warn_sign @ '' High pH'' \<and>
   fst (ph_class 9) = warn_sign @ '' Extremely High''"
  by (simp add: som_class_def ph_class_def)

subsection \<open>The default farm size\<close>

lemma session_small_step4_eq:
  "session_small_step4 =
     \<lparr>step = 4, clicked_lat = Some (265 / 10), clicked_lon = Some (- 805 / 10),
      est_som = Some (269 / 5), est_depth = Some 25, display_ph = 65 / 10,
      display_som = Some (269 / 5), saved_farm_size = 100, selected_crop = ''Sugarcane'',
      drawn_area_ha = Some (1 / 2), selection_mode = ''polygon'', map_key = 0\<rparr>"
  by code_simp

lemma reachable_session_small_step4: "reachable (sample_env (Some 5000)) session_small_step4"
  unfolding session_small_step4_def Let_def
  by (intro reachable.run reachable.init ui_forward_ok)





text \<open>
  Line 304 caps the default from above only. For a drawn area below one hectare the
  default is 0, below the \<^verbatim>\<open>min_value=1\<close> of the number input of line 305, which
  raises.
\<close>

lemma small_polygon_default_below_minimum:
  "step session_small_step4 = 4 \<and>
   drawn_area_ha session_small_step4 = Some (1 / 2) \<and>
   default_size session_small_step4 = 0 \<and>
   render_step ui_forward session_small_step4 = (Inl StreamlitAPIException, session_small_step4)"
  by code_simp

end
